theory Spec2Isabelle
  imports Complex_Main
begin

section \<open>JavaScript numbers\<close>

text \<open>
  A JavaScript number is modelled as a real, one of the two infinities, or NaN.
  Rounding of IEEE doubles and the sign of zero are not modelled: arithmetic on finite
  values is exact, except that \<^verbatim>\<open>Math.exp\<close> underflows to 0 and overflows to
  Infinity where a double does. Every operator below is the operator of the same name in
  the source
  (\<^verbatim>\<open>+\<close>, unary and binary \<^verbatim>\<open>-\<close>, \<^verbatim>\<open>/\<close>, \<^verbatim>\<open>>\<close>, \<^verbatim>\<open>Math.abs\<close>,
  \<^verbatim>\<open>Math.exp\<close>, \<^verbatim>\<open>Math.max\<close>, \<^verbatim>\<open>isNaN\<close>) with its treatment of NaN and of a
  zero divisor written out.
\<close>

datatype jsnum = NaN | Num real | PInf | NInf

fun js_add :: "jsnum \<Rightarrow> jsnum \<Rightarrow> jsnum" where
  "js_add (Num a) (Num b) = Num (a + b)"
| "js_add NaN _ = NaN"
| "js_add _ NaN = NaN"
| "js_add PInf NInf = NaN"
| "js_add NInf PInf = NaN"
| "js_add PInf _ = PInf"
| "js_add _ PInf = PInf"
| "js_add NInf _ = NInf"
| "js_add _ NInf = NInf"

fun js_neg :: "jsnum \<Rightarrow> jsnum" where
  "js_neg NaN = NaN"
| "js_neg (Num a) = Num (- a)"
| "js_neg PInf = NInf"
| "js_neg NInf = PInf"

definition js_sub :: "jsnum \<Rightarrow> jsnum \<Rightarrow> jsnum" where
  "js_sub a b = js_add a (js_neg b)"

fun js_div :: "jsnum \<Rightarrow> jsnum \<Rightarrow> jsnum" where
  "js_div (Num a) (Num b) =
     (if b = 0 then (if a = 0 then NaN else if 0 < a then PInf else NInf)
      else Num (a / b))"
| "js_div NaN _ = NaN"
| "js_div _ NaN = NaN"
| "js_div (Num a) _ = Num 0"
| "js_div PInf (Num b) = (if 0 \<le> b then PInf else NInf)"
| "js_div NInf (Num b) = (if 0 \<le> b then NInf else PInf)"
| "js_div _ _ = NaN"

fun js_abs :: "jsnum \<Rightarrow> jsnum" where
  "js_abs NaN = NaN"
| "js_abs (Num a) = Num \<bar>a\<bar>"
| "js_abs _ = PInf"

text \<open>
  \<^verbatim>\<open>Math.exp\<close> is the real exponential where a double has room for it. A value at or
  below \<open>2 ^ -1075\<close>, half the least positive double, comes out as 0; a value at or above
  \<open>2 ^ 1024 - 2 ^ 970\<close>, halfway between the greatest double and \<open>2 ^ 1024\<close>, comes out
  as Infinity. A value between the two is not rounded.
\<close>

definition underflow_bound :: real where
  "underflow_bound = 1 / 2 ^ 1075"

definition overflow_bound :: real where
  "overflow_bound = 2 ^ 1024 - 2 ^ 970"

definition js_exp :: "jsnum \<Rightarrow> jsnum" where
  "js_exp x =
     (case x of
        NaN \<Rightarrow> NaN
      | Num a \<Rightarrow>
          if exp a \<le> underflow_bound then Num 0
          else if overflow_bound \<le> exp a then PInf
          else Num (exp a)
      | PInf \<Rightarrow> PInf
      | NInf \<Rightarrow> Num 0)"

fun js_max :: "jsnum \<Rightarrow> jsnum \<Rightarrow> jsnum" where
  "js_max (Num a) (Num b) = Num (max a b)"
| "js_max NaN _ = NaN"
| "js_max _ NaN = NaN"
| "js_max PInf _ = PInf"
| "js_max _ PInf = PInf"
| "js_max NInf b = b"
| "js_max a NInf = a"

fun js_gt :: "jsnum \<Rightarrow> jsnum \<Rightarrow> bool" where
  "js_gt (Num a) (Num b) = (b < a)"
| "js_gt NaN _ = False"
| "js_gt _ NaN = False"
| "js_gt NInf _ = False"
| "js_gt _ PInf = False"
| "js_gt _ _ = True"

definition isNaN :: "jsnum \<Rightarrow> bool" where
  "isNaN x = (x = NaN)"

section \<open>Records\<close>

text \<open>
  A string is a list of characters, each standing for one code unit; the truthiness test
  of the source on a string is \<open>s \<noteq> []\<close>. A field that is \<^verbatim>\<open>undefined\<close> or
  \<^verbatim>\<open>null\<close> is \<open>None\<close>.

  A \<^verbatim>\<open>Date\<close> object holds a time value in milliseconds, or is an Invalid Date
  (its time value is NaN). A date field holds a date-like string or a \<^verbatim>\<open>Date\<close>.
  The title of a HAL publication is a string or an array with one string for each
  language.
\<close>

datatype jsdate = ValidDate int | InvalidDate

datatype date_value = DateString string | DateObject jsdate

datatype title_value = TitleString string | TitleArray "string list"

record target =
  halId_s :: "string option"
  doiId_s :: "string option"
  title_s :: "title_value option"
  authors_t :: "string list option"
  publicationDate_s :: "date_value option"

record candidate =
  hal :: "string option"
  doi :: "string option"
  title :: "string option"
  authors :: "string list option"
  date :: "date_value option"

record match_result =
  best :: "candidate option"
  confidence :: jsnum

section \<open>The string similarity\<close>

text \<open>
  Modelled from the spec: \<^verbatim>\<open>levenshtein\<close> is imported from the package
  \<^verbatim>\<open>js-levenshtein\<close>, which is not part of the sources. The spec's contract for it is
  the edit distance, the minimum count of single-character insert, delete and substitute
  operations that transform one string into the other; it is given here by the usual
  recurrence on the first characters.
\<close>

fun levenshtein :: "'a list \<Rightarrow> 'a list \<Rightarrow> nat" where
  "levenshtein [] ys = length ys"
| "levenshtein (x # xs) [] = Suc (length xs)"
| "levenshtein (x # xs) (y # ys) =
     min (levenshtein xs ys + (if x = y then 0 else 1))
         (min (levenshtein xs (y # ys) + 1) (levenshtein (x # xs) ys + 1))"

text \<open>
  The contract in its own words: \<open>edits n xs ys\<close> holds when \<open>n\<close> single-character
  operations, applied from left to right, transform \<open>xs\<close> into \<open>ys\<close>. The
  recurrence above is shown below to give the least such \<open>n\<close>.
\<close>

inductive edits :: "nat \<Rightarrow> 'a list \<Rightarrow> 'a list \<Rightarrow> bool" where
  Done: "edits 0 [] []"
| Keep: "edits n xs ys \<Longrightarrow> edits n (x # xs) (x # ys)"
| Substitute: "edits n xs ys \<Longrightarrow> edits (Suc n) (x # xs) (y # ys)"
| Delete: "edits n xs ys \<Longrightarrow> edits (Suc n) (x # xs) ys"
| Insert: "edits n xs ys \<Longrightarrow> edits (Suc n) xs (y # ys)"

definition stringSimilarity :: "string \<Rightarrow> string \<Rightarrow> jsnum" where
  "stringSimilarity str1 str2 =
     (let distance = levenshtein str1 str2;
          maxLength = max (length str1) (length str2)
      in js_sub (Num 1) (js_div (Num (real distance)) (Num (real maxLength))))"

section \<open>The exact identifiers\<close>

definition is_digit :: "char \<Rightarrow> bool" where
  "is_digit c = (c \<in> set ''0123456789'')"

text \<open>
  \<^verbatim>\<open>s.replace(/v\d+$/, '')\<close>: the regular expression is tried at each position from
  the left. It matches at a position when the character there is \<^verbatim>\<open>v\<close> and the rest
  of the string, up to its end, is one or more digits; the match, which reaches the end
  of the string, is then replaced by the empty string. With no match the string is
  returned as it is.
\<close>

fun replace_version :: "string \<Rightarrow> string" where
  "replace_version [] = []"
| "replace_version (c # cs) =
     (if c = CHR ''v'' \<and> cs \<noteq> [] \<and> list_all is_digit cs then []
      else c # replace_version cs)"

text \<open>\<^verbatim>\<open>if (x) { x = x.replace(/v\d+$/, '') }\<close>, on either side.\<close>

definition strip_if_truthy :: "string option \<Rightarrow> string option" where
  "strip_if_truthy x =
     (case x of None \<Rightarrow> None
      | Some s \<Rightarrow> if s \<noteq> [] then Some (replace_version s) else Some s)"

text \<open>The value \<^verbatim>\<open>targetHal && targetHal === candidateHal\<close>, as the \<^verbatim>\<open>if\<close> reads it.\<close>

definition haveSameHalID :: "target \<Rightarrow> candidate \<Rightarrow> bool" where
  "haveSameHalID t c =
     (let targetHal = strip_if_truthy (halId_s t);
          candidateHal = strip_if_truthy (hal c)
      in case targetHal of None \<Rightarrow> False
         | Some s \<Rightarrow> s \<noteq> [] \<and> targetHal = candidateHal)"

definition haveSameDOI :: "target \<Rightarrow> candidate \<Rightarrow> bool" where
  "haveSameDOI t c =
     (let targetDOI = doiId_s t; candidateDOI = doi c
      in targetDOI \<noteq> None \<and> targetDOI = candidateDOI)"

section \<open>The similarity measures\<close>

definition computeTitleSimilarity :: "target \<Rightarrow> candidate \<Rightarrow> jsnum" where
  "computeTitleSimilarity t c =
     (case (title_s t, title c) of
        (Some (TitleString halTitle), Some candidateTitle) \<Rightarrow>
          if halTitle \<noteq> [] \<and> candidateTitle \<noteq> []
          then stringSimilarity halTitle candidateTitle else NaN
      | (Some (TitleArray halTitle), Some candidateTitle) \<Rightarrow>
          if candidateTitle \<noteq> []
          then foldl js_max (Num 0)
                 (map (\<lambda>langHalTitle. stringSimilarity langHalTitle candidateTitle) halTitle)
          else NaN
      | _ \<Rightarrow> NaN)"

text \<open>\<^verbatim>\<open>array.join(', ')\<close>\<close>

fun join :: "string \<Rightarrow> string list \<Rightarrow> string" where
  "join sep [] = []"
| "join sep [x] = x"
| "join sep (x # y # ys) = x @ sep @ join sep (y # ys)"

text \<open>\<^verbatim>\<open>x && x.join(', ')\<close>: an array is truthy, also when it is empty.\<close>

definition joined_authors :: "string list option \<Rightarrow> string option" where
  "joined_authors x = (case x of None \<Rightarrow> None | Some xs \<Rightarrow> Some (join '', '' xs))"

definition computeAuthorsSimilarity :: "target \<Rightarrow> candidate \<Rightarrow> jsnum" where
  "computeAuthorsSimilarity t c =
     (case (joined_authors (authors_t t), joined_authors (authors c)) of
        (Some targetAuthors, Some candidateAuthors) \<Rightarrow>
          if targetAuthors \<noteq> [] \<and> candidateAuthors \<noteq> []
          then stringSimilarity targetAuthors candidateAuthors else NaN
      | _ \<Rightarrow> NaN)"

text \<open>
  \<^verbatim>\<open>if (d && !(d instanceof Date)) { d = new Date(d) }\<close>. The result is \<open>None\<close> when
  the field is still falsy afterwards (absent, or the empty string), and the
  \<^verbatim>\<open>Date\<close> object otherwise. Parsing a string into a \<^verbatim>\<open>Date\<close> is the platform's
  \<^verbatim>\<open>new Date(string)\<close>, a parameter here; it yields \<open>InvalidDate\<close> on a string it
  cannot parse.
\<close>

definition to_date :: "(string \<Rightarrow> jsdate) \<Rightarrow> date_value option \<Rightarrow> jsdate option" where
  "to_date newDate d =
     (case d of None \<Rightarrow> None
      | Some (DateObject obj) \<Rightarrow> Some obj
      | Some (DateString s) \<Rightarrow> if s \<noteq> [] then Some (newDate s) else None)"

text \<open>The number a \<^verbatim>\<open>Date\<close> converts to under \<^verbatim>\<open>-\<close>: its time value.\<close>

fun time_value :: "jsdate \<Rightarrow> jsnum" where
  "time_value (ValidDate ms) = Num (of_int ms)"
| "time_value InvalidDate = NaN"

definition computeDateSimilarity :: "(string \<Rightarrow> jsdate) \<Rightarrow> target \<Rightarrow> candidate \<Rightarrow> jsnum" where
  "computeDateSimilarity newDate t c =
     (case (to_date newDate (publicationDate_s t), to_date newDate (date c)) of
        (Some targetDate, Some candidateDate) \<Rightarrow>
          (let differenceInMs = js_abs (js_sub (time_value candidateDate) (time_value targetDate));
               differenceInDays = js_div differenceInMs (Num (1000 * 60 * 60 * 24))
           in js_exp (js_div (js_neg differenceInDays) (Num 150)))
      | _ \<Rightarrow> NaN)"

section \<open>The search for the best candidate\<close>

text \<open>
  The four measures that enter the average, then those that pass the filter
  \<^verbatim>\<open>measure != null && !isNaN(measure)\<close> (a measure is always a number), and the
  confidence of one candidate: their sum divided by their count.
\<close>

definition measures :: "(string \<Rightarrow> jsdate) \<Rightarrow> target \<Rightarrow> candidate \<Rightarrow> jsnum list" where
  "measures newDate t c =
     (let titleSimilarity = computeTitleSimilarity t c;
          authorsSimilarity = computeAuthorsSimilarity t c;
          dateSimilarity = computeDateSimilarity newDate t c
      in [titleSimilarity, authorsSimilarity, dateSimilarity, authorsSimilarity])"

definition validMeasures :: "(string \<Rightarrow> jsdate) \<Rightarrow> target \<Rightarrow> candidate \<Rightarrow> jsnum list" where
  "validMeasures newDate t c = filter (\<lambda>measure. \<not> isNaN measure) (measures newDate t c)"

definition candidate_confidence :: "(string \<Rightarrow> jsdate) \<Rightarrow> target \<Rightarrow> candidate \<Rightarrow> jsnum" where
  "candidate_confidence newDate t c =
     (let valid = validMeasures newDate t c
      in js_div (foldl js_add (Num 0) valid) (Num (real (length valid))))"

text \<open>
  The \<^verbatim>\<open>for\<close> loop of \<^verbatim>\<open>findCorrespondingPublication\<close>, on the candidates still to
  visit and the running \<^verbatim>\<open>best_candidate\<close> and \<^verbatim>\<open>best_confidence\<close>.
\<close>

fun find_loop ::
  "(string \<Rightarrow> jsdate) \<Rightarrow> target \<Rightarrow> candidate list \<Rightarrow> candidate option \<Rightarrow> jsnum \<Rightarrow> match_result"
where
  "find_loop newDate t [] best_candidate best_confidence =
     \<lparr>best = best_candidate, confidence = best_confidence\<rparr>"
| "find_loop newDate t (c # cs) best_candidate best_confidence =
     (if haveSameHalID t c then \<lparr>best = Some c, confidence = Num 1\<rparr>
      else if haveSameDOI t c then \<lparr>best = Some c, confidence = Num 1\<rparr>
      else if js_gt (candidate_confidence newDate t c) best_confidence
           then find_loop newDate t cs (Some c) (candidate_confidence newDate t c)
           else find_loop newDate t cs best_candidate best_confidence)"

definition findCorrespondingPublication ::
  "(string \<Rightarrow> jsdate) \<Rightarrow> target \<Rightarrow> candidate list \<Rightarrow> match_result" where
  "findCorrespondingPublication newDate t existingPublications =
     find_loop newDate t existingPublications None (Num 0)"

section \<open>Auxiliary notions for the statements\<close>

text \<open>A number that is finite and lies between 0 and 1, and the real value of a finite number.\<close>

fun unit_value :: "jsnum \<Rightarrow> bool" where
  "unit_value (Num v) = (0 \<le> v \<and> v \<le> 1)"
| "unit_value _ = False"

fun num_value :: "jsnum \<Rightarrow> real" where
  "num_value (Num v) = v"
| "num_value _ = 0"

text \<open>
  The identity normaliser in the words of the specification, written without the
  functions of the code: a digit is a character from \<^verbatim>\<open>0\<close> (code 48) to \<^verbatim>\<open>9\<close>
  (code 57); a string that ends with the letter \<^verbatim>\<open>v\<close> followed by one or more digits
  loses that trailing version marker, and any other string is left as it is. The string is
  read from its end: the digits at the end, then the character before them.
\<close>

definition spec_digit :: "char \<Rightarrow> bool" where
  "spec_digit c = (48 \<le> (of_char c :: nat) \<and> (of_char c :: nat) \<le> 57)"

definition spec_strip_version :: "string \<Rightarrow> string" where
  "spec_strip_version s =
     (let digits = takeWhile spec_digit (rev s);
          before = dropWhile spec_digit (rev s)
      in case before of
           [] \<Rightarrow> s
         | letter # front \<Rightarrow>
             if digits \<noteq> [] \<and> letter = CHR ''v'' then rev front else s)"

text \<open>
  The exact-identifier rule in the words of the specification: the candidate's identifier,
  both sides stripped of a trailing version marker, is non-empty and equal to the target's;
  or the candidate's alternate identifier is present and equal to the target's.
\<close>

definition spec_exact_identifier_rule :: "target \<Rightarrow> candidate \<Rightarrow> bool" where
  "spec_exact_identifier_rule t c =
     ((case (halId_s t, hal c) of
         (Some targetId, Some candidateId) \<Rightarrow>
           spec_strip_version candidateId \<noteq> [] \<and>
           spec_strip_version candidateId = spec_strip_version targetId
       | _ \<Rightarrow> False) \<or>
      (case (doiId_s t, doi c) of
         (Some targetAlt, Some candidateAlt) \<Rightarrow> candidateAlt = targetAlt
       | _ \<Rightarrow> False))"

text \<open>
  Sample inputs for the examples: an instance of the platform's date parser that knows
  three ISO dates (their time values are those of midnight UTC) and rejects every other
  string, and the records with every field absent.
\<close>

definition sampleNewDate :: "string \<Rightarrow> jsdate" where
  "sampleNewDate s =
     (if s = ''2020-06-15'' then ValidDate 1592179200000
      else if s = ''2020-06-20'' then ValidDate 1592611200000
      else if s = ''2021-03-01'' then ValidDate 1614556800000
      else InvalidDate)"

definition blank_target :: target where
  "blank_target = \<lparr>halId_s = None, doiId_s = None, title_s = None, authors_t = None,
                    publicationDate_s = None\<rparr>"

definition blank_candidate :: candidate where
  "blank_candidate = \<lparr>hal = None, doi = None, title = None, authors = None, date = None\<rparr>"

text \<open>
  Scenario 1 of the specification: a target whose identifier carries a version marker.
\<close>

definition scenario_versioned_target :: target where
  "scenario_versioned_target =
     \<lparr>halId_s = Some ''hal-000111v2'', doiId_s = None,
      title_s = Some (TitleArray [''Fast Graphs'']),
      authors_t = Some [''A Dupont'', ''B Martin''],
      publicationDate_s = Some (DateString ''2021-03-01'')\<rparr>"

text \<open>
  Scenario 2 of the specification: same title, same authors, dates five days apart.
\<close>

definition scenario_target :: target where
  "scenario_target =
     \<lparr>halId_s = Some ''hal-000333'', doiId_s = None,
      title_s = Some (TitleArray [''Deep Learning for X'']),
      authors_t = Some [''J Smith''],
      publicationDate_s = Some (DateString ''2020-06-15'')\<rparr>"

definition scenario_candidate :: candidate where
  "scenario_candidate =
     \<lparr>hal = None, doi = None, title = Some ''Deep Learning for X'',
      authors = Some [''J Smith''], date = Some (DateString ''2020-06-20'')\<rparr>"

text \<open>
  A target and candidates for the tie-break: two distinct candidates with the same title,
  and one with the target's DOI.
\<close>

definition tie_target :: target where
  "tie_target = blank_target\<lparr>title_s := Some (TitleString ''cat''), doiId_s := Some ''10.1/x''\<rparr>"

definition tie_first :: candidate where
  "tie_first = blank_candidate\<lparr>title := Some ''cart''\<rparr>"

definition tie_second :: candidate where
  "tie_second = blank_candidate\<lparr>hal := Some ''hal-2'', title := Some ''cart''\<rparr>"

definition tie_exact :: candidate where
  "tie_exact = blank_candidate\<lparr>doi := Some ''10.1/x''\<rparr>"

section \<open>Properties of the numbers and of the string similarity\<close>


lemma levenshtein_Nil2: "levenshtein xs [] = length xs"
  by (cases xs) auto

lemma levenshtein_sym: "levenshtein xs ys = levenshtein ys xs"
  by (induction xs ys rule: levenshtein.induct) (auto simp: levenshtein_Nil2 min.commute min.left_commute)

lemma levenshtein_refl: "levenshtein xs xs = 0"
  by (induction xs) auto

lemma levenshtein_le_max: "levenshtein xs ys \<le> max (length xs) (length ys)"
  by (induction xs ys rule: levenshtein.induct) auto

lemma levenshtein_delete: "levenshtein (x # xs) ys \<le> Suc (levenshtein xs ys)"
  by (cases ys) (auto simp: levenshtein_Nil2)

lemma levenshtein_insert: "levenshtein xs (y # ys) \<le> Suc (levenshtein xs ys)"
  by (cases xs) auto

lemma levenshtein_minimal: "edits n xs ys \<Longrightarrow> levenshtein xs ys \<le> n"
proof (induction rule: edits.induct)
  case Done
  show ?case by simp
next
  case (Keep n xs ys x)
  then show ?case by (simp add: min.coboundedI1)
next
  case (Substitute n xs ys x y)
  then show ?case by (simp add: min.coboundedI1)
next
  case (Delete n xs ys x)
  then show ?case using levenshtein_delete [of x xs ys] by linarith
next
  case (Insert n xs ys y)
  then show ?case using levenshtein_insert [of xs y ys] by linarith
qed

lemma edits_insert_all: "edits (length ys) [] ys"
  by (induction ys) (auto intro: edits.intros)

lemma edits_delete_all: "edits (length xs) xs []"
  by (induction xs) (auto intro: edits.intros)

lemma levenshtein_achieved: "edits (levenshtein xs ys) xs ys"
proof (induction xs ys rule: levenshtein.induct)
  case (1 ys)
  show ?case by (simp add: edits_insert_all)
next
  case (2 x xs)
  show ?case using edits_delete_all [of "x # xs"] by simp
next
  case (3 x xs y ys)
  let ?d = "levenshtein xs ys + (if x = y then 0 else 1)"
  let ?e = "levenshtein xs (y # ys) + 1"
  let ?f = "levenshtein (x # xs) ys + 1"
  have d: "edits ?d (x # xs) (y # ys)"
    using "3.IH"(1) by (auto intro: edits.intros)
  have e: "edits ?e (x # xs) (y # ys)"
    using "3.IH"(2) by (auto intro: edits.intros)
  have f: "edits ?f (x # xs) (y # ys)"
    using "3.IH"(3) by (auto intro: edits.intros)
  have "levenshtein (x # xs) (y # ys) = ?d \<or> levenshtein (x # xs) (y # ys) = ?e \<or>
        levenshtein (x # xs) (y # ys) = ?f"
    by (simp add: min_def)
  then show ?case using d e f by metis
qed

lemma stringSimilarity_eq:
  "str1 \<noteq> [] \<or> str2 \<noteq> [] \<Longrightarrow>
   stringSimilarity str1 str2 =
     Num (1 - real (levenshtein str1 str2) / real (max (length str1) (length str2)))"
  by (auto simp: stringSimilarity_def js_sub_def Let_def)

lemma stringSimilarity_unit:
  assumes "str1 \<noteq> [] \<or> str2 \<noteq> []"
  shows "unit_value (stringSimilarity str1 str2)"
proof -
  let ?m = "max (length str1) (length str2)"
  have pos: "0 < real ?m" using assms by (cases str1; cases str2; simp)
  have "real (levenshtein str1 str2) \<le> real ?m"
    using levenshtein_le_max [of str1 str2] by linarith
  then have "real (levenshtein str1 str2) / real ?m \<le> 1"
    using pos by (simp add: divide_le_eq)
  moreover have "0 \<le> real (levenshtein str1 str2) / real ?m" by simp
  ultimately show ?thesis
    using assms by (simp add: stringSimilarity_eq)
qed

lemma stringSimilarity_sym: "stringSimilarity a b = stringSimilarity b a"
  by (simp add: stringSimilarity_def levenshtein_sym [of a b] max.commute)

lemma stringSimilarity_same: "a \<noteq> [] \<Longrightarrow> stringSimilarity a a = Num 1"
  by (simp add: stringSimilarity_eq levenshtein_refl)


section \<open>Ranges of the measures\<close>


lemma unit_value_iff: "unit_value x \<longleftrightarrow> (\<exists>v. x = Num v \<and> 0 \<le> v \<and> v \<le> 1)"
  by (cases x) auto

lemma js_max_unit: "unit_value a \<Longrightarrow> unit_value b \<Longrightarrow> unit_value (js_max a b)"
  by (cases a; cases b) auto

lemma foldl_js_max_unit:
  "unit_value a \<Longrightarrow> \<forall>x\<in>set xs. unit_value x \<Longrightarrow> unit_value (foldl js_max a xs)"
  by (induction xs arbitrary: a) (auto simp: js_max_unit)

lemma title_range: "computeTitleSimilarity t c = NaN \<or> unit_value (computeTitleSimilarity t c)"
  by (auto simp: computeTitleSimilarity_def stringSimilarity_unit foldl_js_max_unit
           split: option.splits title_value.splits)

lemma authors_range:
  "computeAuthorsSimilarity t c = NaN \<or> unit_value (computeAuthorsSimilarity t c)"
  by (auto simp: computeAuthorsSimilarity_def stringSimilarity_unit split: option.splits)

lemma js_add_NaN_right [simp]: "js_add x NaN = NaN"
  by (cases x) auto

lemma js_exp_NaN [simp]: "js_exp NaN = NaN"
  by (simp add: js_exp_def)

lemma underflow_bound_pos: "0 < underflow_bound"
  by (simp add: underflow_bound_def)

lemma overflow_bound_gt_one: "1 < overflow_bound"
  by (simp add: overflow_bound_def)

lemma exp_of_nat_power: "exp (real n) = exp 1 ^ n"
  by (metis exp_of_nat_mult mult.right_neutral)

lemma exp_no_underflow:
  assumes "- 667 \<le> a"
  shows "underflow_bound < exp (a::real)"
proof -
  have "exp (667::real) = exp 1 ^ 667" using exp_of_nat_power [of 667] by simp
  also have "\<dots> \<le> 3 ^ 667" by (intro power_mono exp_le) simp
  also have "\<dots> < 2 ^ 1075" by simp
  finally have "exp (667::real) < 2 ^ 1075" .
  then have "1 / 2 ^ 1075 < 1 / exp (667::real)"
    by (intro divide_strict_left_mono) simp_all
  also have "\<dots> = exp (- 667 :: real)" by (simp add: exp_minus field_simps)
  also have "\<dots> \<le> exp a" using assms by simp
  finally show ?thesis by (simp only: underflow_bound_def)
qed

lemma exp_underflow:
  assumes "a \<le> - 1075"
  shows "exp (a::real) \<le> underflow_bound"
proof -
  have "2 \<le> exp (1::real)" using exp_ge_add_one_self [of "1::real"] by simp
  then have "(2::real) ^ 1075 \<le> exp 1 ^ 1075" by (intro power_mono) simp_all
  also have "\<dots> = exp (1075::real)" using exp_of_nat_power [of 1075] by simp
  finally have "(2::real) ^ 1075 \<le> exp 1075" .
  then have "1 / exp (1075::real) \<le> 1 / 2 ^ 1075"
    by (intro divide_left_mono) simp_all
  moreover have "exp a \<le> exp (- 1075 :: real)" using assms by simp
  moreover have "exp (- 1075 :: real) = 1 / exp 1075" by (simp add: exp_minus field_simps)
  ultimately show ?thesis by (simp only: underflow_bound_def)
qed

lemma js_exp_nonpos:
  assumes "a \<le> 0"
  shows "js_exp (Num a) = (if exp a \<le> underflow_bound then Num 0 else Num (exp a))"
proof -
  have "exp a \<le> 1" using assms by simp
  then have "\<not> overflow_bound \<le> exp a" using overflow_bound_gt_one by linarith
  then show ?thesis by (simp add: js_exp_def)
qed

lemma js_exp_unit: "a \<le> 0 \<Longrightarrow> unit_value (js_exp (Num a))"
  by (simp add: js_exp_nonpos)

lemma js_exp_exact: "- 667 \<le> a \<Longrightarrow> a \<le> 0 \<Longrightarrow> js_exp (Num a) = Num (exp a)"
  using exp_no_underflow [of a] by (simp add: js_exp_nonpos)

lemma js_exp_zero: "a \<le> - 1075 \<Longrightarrow> js_exp (Num a) = Num 0"
  using exp_underflow [of a] by (simp add: js_exp_nonpos)

lemma js_exp_mono:
  assumes "a \<le> b" and "b \<le> 0"
  shows "\<not> js_gt (js_exp (Num a)) (js_exp (Num b))"
proof -
  have a: "a \<le> 0" using assms by simp
  have le: "exp a \<le> exp b" using assms(1) by simp
  show ?thesis
  proof (cases "exp b \<le> underflow_bound")
    case True
    then have "exp a \<le> underflow_bound" using le by linarith
    then show ?thesis using True a assms(2) by (simp add: js_exp_nonpos)
  next
    case False
    then have "js_exp (Num b) = Num (exp b)" using assms(2) by (simp add: js_exp_nonpos)
    moreover have "js_exp (Num a) = Num 0 \<or> js_exp (Num a) = Num (exp a)"
      using a by (simp add: js_exp_nonpos)
    ultimately show ?thesis using assms(1) by auto
  qed
qed

lemma date_similarity_valid:
  "to_date newDate (publicationDate_s t) = Some (ValidDate a) \<Longrightarrow>
   to_date newDate (date c) = Some (ValidDate b) \<Longrightarrow>
   computeDateSimilarity newDate t c =
     js_exp (Num (- (\<bar>real_of_int b - real_of_int a\<bar> / (1000 * 60 * 60 * 24)) / 150))"
  by (simp add: computeDateSimilarity_def js_sub_def)

lemma date_similarity_exact:
  "to_date newDate (publicationDate_s t) = Some (ValidDate a) \<Longrightarrow>
   to_date newDate (date c) = Some (ValidDate b) \<Longrightarrow>
   \<bar>real_of_int b - real_of_int a\<bar> \<le> 100000 * (1000 * 60 * 60 * 24) \<Longrightarrow>
   computeDateSimilarity newDate t c =
     Num (exp (- (\<bar>real_of_int b - real_of_int a\<bar> / (1000 * 60 * 60 * 24)) / 150))"
  by (simp add: date_similarity_valid js_exp_exact)

lemma date_similarity_invalid:
  "to_date newDate (publicationDate_s t) = Some InvalidDate \<or>
   to_date newDate (date c) = Some InvalidDate \<or>
   to_date newDate (publicationDate_s t) = None \<or>
   to_date newDate (date c) = None \<Longrightarrow>
   computeDateSimilarity newDate t c = NaN"
  by (auto simp: computeDateSimilarity_def js_sub_def js_exp_def split: option.splits jsdate.splits)

lemma date_range:
  "computeDateSimilarity newDate t c = NaN \<or> unit_value (computeDateSimilarity newDate t c)"
proof (cases "to_date newDate (publicationDate_s t)")
  case None
  then show ?thesis by (simp add: date_similarity_invalid)
next
  case (Some d1)
  note d1 = this
  show ?thesis
  proof (cases "to_date newDate (date c)")
    case None
    then show ?thesis by (simp add: date_similarity_invalid)
  next
    case (Some d2)
    show ?thesis
    proof (cases d1; cases d2)
      fix a b assume "d1 = ValidDate a" "d2 = ValidDate b"
      then show ?thesis using d1 Some
        by (simp add: date_similarity_valid js_exp_unit)
    qed (use d1 Some in \<open>simp_all add: date_similarity_invalid\<close>)
  qed
qed

lemma valid_measures_unit: "\<forall>x\<in>set (validMeasures newDate t c). unit_value x"
  using title_range [of t c] authors_range [of t c] date_range [of newDate t c]
  by (auto simp: validMeasures_def measures_def isNaN_def Let_def)

lemma foldl_js_add_unit:
  "\<forall>x\<in>set xs. unit_value x \<Longrightarrow>
   foldl js_add (Num a) xs = Num (a + sum_list (map num_value xs))"
  by (induction xs arbitrary: a) (auto simp: unit_value_iff)

lemma sum_unit_bounds:
  "\<forall>x\<in>set xs. unit_value x \<Longrightarrow>
   0 \<le> sum_list (map num_value xs) \<and> sum_list (map num_value xs) \<le> real (length xs)"
  by (induction xs) (auto simp: unit_value_iff)

lemma candidate_confidence_eq:
  "candidate_confidence newDate t c =
     (if validMeasures newDate t c = [] then NaN
      else Num (sum_list (map num_value (validMeasures newDate t c)) /
                real (length (validMeasures newDate t c))))"
  by (simp add: candidate_confidence_def Let_def foldl_js_add_unit [OF valid_measures_unit])

lemma candidate_confidence_range:
  "candidate_confidence newDate t c = NaN \<or> unit_value (candidate_confidence newDate t c)"
proof (cases "validMeasures newDate t c = []")
  case True
  then show ?thesis by (simp add: candidate_confidence_eq)
next
  case False
  let ?v = "validMeasures newDate t c"
  have len: "0 < real (length ?v)" using False by simp
  have "0 \<le> sum_list (map num_value ?v)" "sum_list (map num_value ?v) \<le> real (length ?v)"
    using sum_unit_bounds [OF valid_measures_unit, of newDate t c] by auto
  then have "0 \<le> sum_list (map num_value ?v) / real (length ?v)"
            "sum_list (map num_value ?v) / real (length ?v) \<le> 1"
    using len by (simp_all add: divide_le_eq)
  then show ?thesis using False by (simp add: candidate_confidence_eq)
qed

lemma find_loop_invariant:
  "unit_value bc \<Longrightarrow> (b = None \<longleftrightarrow> bc = Num 0) \<Longrightarrow>
   unit_value (confidence (find_loop newDate t cs b bc)) \<and>
   (best (find_loop newDate t cs b bc) = None \<longleftrightarrow>
    confidence (find_loop newDate t cs b bc) = Num 0)"
proof (induction cs arbitrary: b bc)
  case Nil
  then show ?case by simp
next
  case (Cons c cs)
  show ?case
  proof (cases "haveSameHalID t c \<or> haveSameDOI t c")
    case True
    then show ?thesis by auto
  next
    case False
    show ?thesis
    proof (cases "js_gt (candidate_confidence newDate t c) bc")
      case True
      obtain w where w: "bc = Num w" "0 \<le> w" using Cons.prems(1) by (auto simp: unit_value_iff)
      from True w candidate_confidence_range [of newDate t c]
      obtain v where v: "candidate_confidence newDate t c = Num v" "w < v" "unit_value (Num v)"
        by (cases "candidate_confidence newDate t c") auto
      have "Some c = None \<longleftrightarrow> Num v = Num 0" using v w by auto
      from Cons.IH [OF v(3) this] show ?thesis using False True v by simp
    next
      case gt: False
      from Cons.IH [OF Cons.prems] show ?thesis using False gt by simp
    qed
  qed
qed


section \<open>Properties of the loop\<close>


lemma find_loop_first_exact:
  "\<forall>p\<in>set pre. \<not> haveSameHalID t p \<and> \<not> haveSameDOI t p \<Longrightarrow>
   haveSameHalID t c \<or> haveSameDOI t c \<Longrightarrow>
   find_loop newDate t (pre @ c # post) b bc = \<lparr>best = Some c, confidence = Num 1\<rparr>"
  by (induction pre arbitrary: b bc) auto

lemma find_loop_no_update:
  "\<forall>q\<in>set post. \<not> haveSameHalID t q \<and> \<not> haveSameDOI t q \<and>
                  \<not> js_gt (candidate_confidence newDate t q) bc \<Longrightarrow>
   find_loop newDate t post b bc = \<lparr>best = b, confidence = bc\<rparr>"
  by (induction post) auto

lemma find_loop_prefix_below:
  "\<forall>p\<in>set pre. \<not> haveSameHalID t p \<and> \<not> haveSameDOI t p \<and>
                 (candidate_confidence newDate t p = NaN \<or>
                  js_gt (Num v) (candidate_confidence newDate t p)) \<Longrightarrow>
   w < v \<Longrightarrow>
   \<exists>b' w'. w' < v \<and>
     (\<forall>rest. find_loop newDate t (pre @ rest) b (Num w) = find_loop newDate t rest b' (Num w'))"
proof (induction pre arbitrary: b w)
  case Nil
  then show ?case by auto
next
  case (Cons p pre)
  have norule: "\<not> haveSameHalID t p" "\<not> haveSameDOI t p" using Cons.prems(1) by auto
  have rest: "\<forall>p\<in>set pre. \<not> haveSameHalID t p \<and> \<not> haveSameDOI t p \<and>
                 (candidate_confidence newDate t p = NaN \<or>
                  js_gt (Num v) (candidate_confidence newDate t p))"
    using Cons.prems(1) by auto
  show ?case
  proof (cases "js_gt (candidate_confidence newDate t p) (Num w)")
    case True
    then obtain u where u: "candidate_confidence newDate t p = Num u"
      using candidate_confidence_range [of newDate t p]
      by (cases "candidate_confidence newDate t p") auto
    have "u < v" using Cons.prems(1) u by auto
    from Cons.IH [OF rest this, of "Some p"] show ?thesis
      using norule True u by auto
  next
    case False
    from Cons.IH [OF rest Cons.prems(2), of b] show ?thesis
      using norule False by auto
  qed
qed

lemma find_loop_earliest_maximal:
  assumes pre: "\<forall>p\<in>set pre. \<not> haveSameHalID t p \<and> \<not> haveSameDOI t p \<and>
                 (candidate_confidence newDate t p = NaN \<or>
                  js_gt (candidate_confidence newDate t c) (candidate_confidence newDate t p))"
    and c: "\<not> haveSameHalID t c" "\<not> haveSameDOI t c"
           "js_gt (candidate_confidence newDate t c) (Num 0)"
    and post: "\<forall>q\<in>set post. \<not> haveSameHalID t q \<and> \<not> haveSameDOI t q \<and>
                 \<not> js_gt (candidate_confidence newDate t q) (candidate_confidence newDate t c)"
  shows "find_loop newDate t (pre @ c # post) None (Num 0) =
           \<lparr>best = Some c, confidence = candidate_confidence newDate t c\<rparr>"
proof -
  obtain v where v: "candidate_confidence newDate t c = Num v" "0 < v"
    using c(3) candidate_confidence_range [of newDate t c]
    by (cases "candidate_confidence newDate t c") auto
  from find_loop_prefix_below [of pre t newDate v 0 None] pre v
  obtain b' w' where w': "w' < v"
    and eq: "find_loop newDate t (pre @ c # post) None (Num 0) =
             find_loop newDate t (c # post) b' (Num w')"
    by auto
  have "find_loop newDate t (c # post) b' (Num w') = find_loop newDate t post (Some c) (Num v)"
    using c(1,2) v w' by simp
  also have "\<dots> = \<lparr>best = Some c, confidence = Num v\<rparr>"
    using post v by (intro find_loop_no_update) auto
  finally show ?thesis using eq v by simp
qed

lemma find_loop_some_exact:
  assumes "\<exists>c\<in>set cs. haveSameHalID t c \<or> haveSameDOI t c"
  shows "confidence (find_loop newDate t cs b bc) = Num 1"
proof -
  from split_list_first_prop [OF assms]
  obtain pre c post where "cs = pre @ c # post" "haveSameHalID t c \<or> haveSameDOI t c"
    "\<forall>p\<in>set pre. \<not> (haveSameHalID t p \<or> haveSameDOI t p)"
    by blast
  then show ?thesis using find_loop_first_exact [of pre t c newDate post b bc] by simp
qed

lemma is_digit_spec: "is_digit c = spec_digit c"
proof
  assume "is_digit c"
  then show "spec_digit c" by (auto simp: is_digit_def spec_digit_def)
next
  assume s: "spec_digit c"
  define n where "n = (of_char c :: nat)"
  have "48 \<le> n" "n \<le> 57" using s by (simp_all add: spec_digit_def n_def)
  then have "n \<in> of_char ` set ''0123456789''"
    by (simp add: image_iff) arith
  then obtain d where d: "d \<in> set ''0123456789''" "(of_char c :: nat) = of_char d"
    unfolding n_def by blast
  then have "c = d" by (simp only: of_char_eq_iff)
  then show "is_digit c" using d(1) by (simp add: is_digit_def)
qed

lemma letter_v_no_digit: "\<not> spec_digit CHR ''v''"
  by (simp add: spec_digit_def)

lemma replace_version_marker:
  assumes "ds \<noteq> []" and "\<forall>d\<in>set ds. spec_digit d"
  shows "replace_version (p @ CHR ''v'' # ds) = p"
proof (induction p)
  case Nil
  show ?case using assms by (simp add: list_all_iff is_digit_spec)
next
  case (Cons x p)
  have "\<not> list_all is_digit (p @ CHR ''v'' # ds)"
    by (simp add: is_digit_spec letter_v_no_digit)
  then show ?case using Cons.IH by simp
qed

lemma replace_version_no_marker:
  assumes "\<forall>p ds. s = p @ CHR ''v'' # ds \<longrightarrow> ds = [] \<or> (\<exists>d\<in>set ds. \<not> spec_digit d)"
  shows "replace_version s = s"
  using assms
proof (induction s)
  case Nil
  show ?case by simp
next
  case (Cons c cs)
  have head: "\<not> (c = CHR ''v'' \<and> cs \<noteq> [] \<and> list_all is_digit cs)"
  proof
    assume m: "c = CHR ''v'' \<and> cs \<noteq> [] \<and> list_all is_digit cs"
    then have "c # cs = [] @ CHR ''v'' # cs" by simp
    with Cons.prems have "cs = [] \<or> (\<exists>d\<in>set cs. \<not> spec_digit d)" by blast
    then show False using m by (auto simp: list_all_iff is_digit_spec)
  qed
  have "\<forall>p ds. cs = p @ CHR ''v'' # ds \<longrightarrow> ds = [] \<or> (\<exists>d\<in>set ds. \<not> spec_digit d)"
  proof (intro allI impI)
    fix p ds assume "cs = p @ CHR ''v'' # ds"
    then have "c # cs = (c # p) @ CHR ''v'' # ds" by simp
    with Cons.prems show "ds = [] \<or> (\<exists>d\<in>set ds. \<not> spec_digit d)" by blast
  qed
  from Cons.IH [OF this] show ?case using head by auto
qed

lemma spec_strip_version_marker:
  assumes "ds \<noteq> []" and "\<forall>d\<in>set ds. spec_digit d"
  shows "spec_strip_version (p @ CHR ''v'' # ds) = p"
proof -
  have rv: "rev (p @ CHR ''v'' # ds) = rev ds @ CHR ''v'' # rev p" by simp
  have all: "\<forall>d\<in>set (rev ds). spec_digit d" using assms(2) by simp
  have tw: "takeWhile spec_digit (rev ds @ CHR ''v'' # rev p) = rev ds"
    using all by (subst takeWhile_append2) (auto simp: letter_v_no_digit)
  have dw: "dropWhile spec_digit (rev ds @ CHR ''v'' # rev p) = CHR ''v'' # rev p"
    using all by (subst dropWhile_append2) (auto simp: letter_v_no_digit)
  show ?thesis
    unfolding spec_strip_version_def Let_def rv tw dw using assms(1) by simp
qed

lemma spec_strip_version_no_marker:
  assumes "\<forall>p ds. s = p @ CHR ''v'' # ds \<longrightarrow> ds = [] \<or> (\<exists>d\<in>set ds. \<not> spec_digit d)"
  shows "spec_strip_version s = s"
proof (cases "dropWhile spec_digit (rev s)")
  case Nil
  show ?thesis unfolding spec_strip_version_def Let_def Nil by simp
next
  case (Cons letter front)
  have "\<not> (takeWhile spec_digit (rev s) \<noteq> [] \<and> letter = CHR ''v'')"
  proof
    assume m: "takeWhile spec_digit (rev s) \<noteq> [] \<and> letter = CHR ''v''"
    have "rev s = takeWhile spec_digit (rev s) @ CHR ''v'' # front"
      using Cons m takeWhile_dropWhile_id [of spec_digit "rev s"] by simp
    then have "rev (rev s) = rev (takeWhile spec_digit (rev s) @ CHR ''v'' # front)"
      by (rule arg_cong)
    then have "s = rev front @ CHR ''v'' # rev (takeWhile spec_digit (rev s))" by simp
    with assms have "rev (takeWhile spec_digit (rev s)) = [] \<or>
        (\<exists>d\<in>set (rev (takeWhile spec_digit (rev s))). \<not> spec_digit d)"
      by blast
    then show False using m by (auto dest: set_takeWhileD)
  qed
  then show ?thesis unfolding spec_strip_version_def Let_def Cons by auto
qed

lemma replace_version_spec: "replace_version s = spec_strip_version s"
proof (cases "\<exists>p ds. s = p @ CHR ''v'' # ds \<and> ds \<noteq> [] \<and> (\<forall>d\<in>set ds. spec_digit d)")
  case True
  then obtain p ds where "s = p @ CHR ''v'' # ds" "ds \<noteq> []" "\<forall>d\<in>set ds. spec_digit d"
    by blast
  then show ?thesis by (simp add: replace_version_marker spec_strip_version_marker)
next
  case False
  then have "\<forall>p ds. s = p @ CHR ''v'' # ds \<longrightarrow> ds = [] \<or> (\<exists>d\<in>set ds. \<not> spec_digit d)"
    by blast
  then show ?thesis by (simp add: replace_version_no_marker spec_strip_version_no_marker)
qed

lemma spec_exact_identifier_rule_code:
  "spec_exact_identifier_rule t c \<longleftrightarrow> haveSameHalID t c \<or> haveSameDOI t c"
  by (auto simp: spec_exact_identifier_rule_def haveSameHalID_def haveSameDOI_def
                 strip_if_truthy_def Let_def replace_version_spec [symmetric]
           split: option.splits)

lemma find_Some_split:
  "List.find P xs = Some x \<Longrightarrow> \<exists>pre post. xs = pre @ x # post \<and> P x \<and> (\<forall>p\<in>set pre. \<not> P p)"
proof (induction xs)
  case Nil
  then show ?case by simp
next
  case (Cons a xs)
  show ?case
  proof (cases "P a")
    case True
    then have "a = x" using Cons.prems by simp
    then have "a # xs = [] @ x # xs \<and> P x \<and> (\<forall>p\<in>set []. \<not> P p)" using True by simp
    then show ?thesis by blast
  next
    case False
    then have "List.find P xs = Some x" using Cons.prems by simp
    from Cons.IH [OF this] obtain pre post where
      "xs = pre @ x # post" "P x" "\<forall>p\<in>set pre. \<not> P p" by blast
    then have "a # xs = (a # pre) @ x # post \<and> P x \<and> (\<forall>p\<in>set (a # pre). \<not> P p)"
      using False by simp
    then show ?thesis by blast
  qed
qed

section \<open>Facts for the examples\<close>

lemma find_loop_step:
  "\<not> haveSameHalID t c \<Longrightarrow> \<not> haveSameDOI t c \<Longrightarrow>
   find_loop newDate t (c # cs) b bc =
     (if js_gt (candidate_confidence newDate t c) bc
      then find_loop newDate t cs (Some c) (candidate_confidence newDate t c)
      else find_loop newDate t cs b bc)"
  by simp

lemma exp_five_days: "29 / 30 \<le> exp (- (1 / 30) :: real) \<and> exp (- (1 / 30) :: real) \<le> 30 / 31"
proof -
  have "1 + (- (1 / 30)) \<le> exp (- (1 / 30) :: real)"
    by (rule exp_ge_add_one_self)
  moreover have "1 + 1 / 30 \<le> exp (1 / 30 :: real)"
    by (rule exp_ge_add_one_self)
  then have "exp (- (1 / 30) :: real) \<le> 1 / (1 + 1 / 30)"
    unfolding exp_minus by (simp add: field_simps)
  ultimately show ?thesis by simp
qed

lemma tie_confidences:
  "candidate_confidence sampleNewDate tie_target blank_candidate = NaN"
  "candidate_confidence sampleNewDate tie_target tie_first = Num (3 / 4)"
  "candidate_confidence sampleNewDate tie_target tie_second = Num (3 / 4)"
  by (simp_all add: tie_target_def tie_first_def tie_second_def blank_target_def
        blank_candidate_def candidate_confidence_def validMeasures_def measures_def isNaN_def
        Let_def computeTitleSimilarity_def computeAuthorsSimilarity_def joined_authors_def
        computeDateSimilarity_def to_date_def stringSimilarity_def js_sub_def)

lemma tie_rules:
  "\<not> haveSameHalID tie_target blank_candidate" "\<not> haveSameDOI tie_target blank_candidate"
  "\<not> haveSameHalID tie_target tie_first" "\<not> haveSameDOI tie_target tie_first"
  "\<not> haveSameHalID tie_target tie_second" "\<not> haveSameDOI tie_target tie_second"
  "haveSameDOI tie_target tie_exact"
  by (simp_all add: tie_target_def tie_first_def tie_second_def tie_exact_def blank_target_def
        blank_candidate_def haveSameHalID_def haveSameDOI_def strip_if_truthy_def)

section \<open>The claims\<close>

subsection \<open>No computable measure for any candidate\<close>

text \<open>
  Claim C1, as amended. For every target and every candidate sequence, in particular every
  non-empty one, in which no candidate fires an exact-identifier rule and the title, authors
  and date measures are all NaN for every candidate, the search returns no candidate at all:
  \<open>best\<close> is null and the confidence is 0. The confidence of such a candidate is the NaN
  of \<^verbatim>\<open>0 / 0\<close>, and \<^verbatim>\<open>NaN > 0\<close> is false, so the running best is never set.
\<close>

theorem no_evidence_returns_null:
  assumes "\<forall>c\<in>set cs. \<not> haveSameHalID t c \<and> \<not> haveSameDOI t c \<and>
             computeTitleSimilarity t c = NaN \<and> computeAuthorsSimilarity t c = NaN \<and>
             computeDateSimilarity newDate t c = NaN"
  shows "findCorrespondingPublication newDate t cs = \<lparr>best = None, confidence = Num 0\<rparr>"
proof -
  have "\<forall>c\<in>set cs. \<not> haveSameHalID t c \<and> \<not> haveSameDOI t c \<and>
          \<not> js_gt (candidate_confidence newDate t c) (Num 0)"
    using assms
    by (simp add: candidate_confidence_def validMeasures_def measures_def isNaN_def)
  then show ?thesis
    unfolding findCorrespondingPublication_def by (rule find_loop_no_update)
qed

text \<open>The theorem at two candidates with every field absent, against such a target.\<close>

theorem no_evidence_returns_null_witness:
  "findCorrespondingPublication sampleNewDate blank_target [blank_candidate, blank_candidate]
     = \<lparr>best = None, confidence = Num 0\<rparr>"
  using no_evidence_returns_null [of "[blank_candidate, blank_candidate]" blank_target sampleNewDate]
  by (simp add: blank_target_def blank_candidate_def haveSameHalID_def haveSameDOI_def
        strip_if_truthy_def computeTitleSimilarity_def computeAuthorsSimilarity_def
        joined_authors_def computeDateSimilarity_def to_date_def)

text \<open>
  Claim C1 as it was stated fails: one candidate, no rule fires, no measure is computable,
  and the result is not that candidate with confidence 0 but null with confidence 0.
\<close>

theorem no_evidence_first_candidate_counterexample:
  "\<not> haveSameHalID blank_target blank_candidate \<and>
   \<not> haveSameDOI blank_target blank_candidate \<and>
   computeTitleSimilarity blank_target blank_candidate = NaN \<and>
   computeAuthorsSimilarity blank_target blank_candidate = NaN \<and>
   computeDateSimilarity sampleNewDate blank_target blank_candidate = NaN \<and>
   findCorrespondingPublication sampleNewDate blank_target [blank_candidate]
     \<noteq> \<lparr>best = Some blank_candidate, confidence = Num 0\<rparr> \<and>
   findCorrespondingPublication sampleNewDate blank_target [blank_candidate]
     = \<lparr>best = None, confidence = Num 0\<rparr>"
  by (simp add: blank_target_def blank_candidate_def haveSameHalID_def haveSameDOI_def
        strip_if_truthy_def computeTitleSimilarity_def computeAuthorsSimilarity_def
        joined_authors_def computeDateSimilarity_def to_date_def
        findCorrespondingPublication_def candidate_confidence_def validMeasures_def
        measures_def isNaN_def)

subsection \<open>The invariant of the result\<close>

text \<open>
  Claim C2, as amended. For every target and candidate sequence the confidence of the
  result is a finite number in [0,1]; \<open>best\<close> is null if and only if the confidence
  is 0; if some candidate fires an exact-identifier rule the confidence is exactly 1; and an
  empty candidate sequence gives null with confidence 0. The converse of the last part is
  dropped: a non-empty sequence gives null as well when no candidate fires a rule or
  reaches a confidence above 0.
\<close>

theorem match_result_invariant:
  "unit_value (confidence (findCorrespondingPublication newDate t cs)) \<and>
   (best (findCorrespondingPublication newDate t cs) = None \<longleftrightarrow>
      confidence (findCorrespondingPublication newDate t cs) = Num 0) \<and>
   ((\<exists>c\<in>set cs. haveSameHalID t c \<or> haveSameDOI t c) \<longrightarrow>
      confidence (findCorrespondingPublication newDate t cs) = Num 1) \<and>
   (cs = [] \<longrightarrow>
      findCorrespondingPublication newDate t cs = \<lparr>best = None, confidence = Num 0\<rparr>)"
  using find_loop_invariant [of "Num 0" None newDate t cs]
        find_loop_some_exact [of cs t newDate None "Num 0"]
  by (auto simp: findCorrespondingPublication_def)

text \<open>
  The theorem at a target with a DOI, once against two candidates, the second with that
  DOI, and once against no candidate.
\<close>

theorem match_result_invariant_witness:
  "unit_value (confidence (findCorrespondingPublication sampleNewDate
      (blank_target\<lparr>doiId_s := Some ''10.1000/182''\<rparr>)
      [blank_candidate, blank_candidate\<lparr>doi := Some ''10.1000/182''\<rparr>])) \<and>
   confidence (findCorrespondingPublication sampleNewDate
      (blank_target\<lparr>doiId_s := Some ''10.1000/182''\<rparr>)
      [blank_candidate, blank_candidate\<lparr>doi := Some ''10.1000/182''\<rparr>]) = Num 1 \<and>
   best (findCorrespondingPublication sampleNewDate
      (blank_target\<lparr>doiId_s := Some ''10.1000/182''\<rparr>)
      [blank_candidate, blank_candidate\<lparr>doi := Some ''10.1000/182''\<rparr>]) \<noteq> None \<and>
   findCorrespondingPublication sampleNewDate (blank_target\<lparr>doiId_s := Some ''10.1000/182''\<rparr>) []
     = \<lparr>best = None, confidence = Num 0\<rparr>"
  using match_result_invariant [of sampleNewDate "blank_target\<lparr>doiId_s := Some ''10.1000/182''\<rparr>"
          "[blank_candidate, blank_candidate\<lparr>doi := Some ''10.1000/182''\<rparr>]"]
        match_result_invariant [of sampleNewDate "blank_target\<lparr>doiId_s := Some ''10.1000/182''\<rparr>" "[]"]
  by (simp add: blank_target_def blank_candidate_def haveSameDOI_def)

text \<open>
  Claim C2 as it was stated fails (Scenario 3 of the specification): the target has only
  a date, the single candidate only a title; \<open>best\<close> is null although the candidate
  sequence is not empty.
\<close>

theorem null_best_nonempty_counterexample:
  "\<not> (best (findCorrespondingPublication sampleNewDate
              (blank_target\<lparr>publicationDate_s := Some (DateString ''2021-03-01'')\<rparr>)
              [blank_candidate\<lparr>title := Some ''Fast Graphs''\<rparr>]) = None
       \<longleftrightarrow>
       confidence (findCorrespondingPublication sampleNewDate
              (blank_target\<lparr>publicationDate_s := Some (DateString ''2021-03-01'')\<rparr>)
              [blank_candidate\<lparr>title := Some ''Fast Graphs''\<rparr>]) = Num 0 \<and>
       [blank_candidate\<lparr>title := Some ''Fast Graphs''\<rparr>] = [])"
  by (simp add: blank_target_def blank_candidate_def haveSameHalID_def haveSameDOI_def
        strip_if_truthy_def computeTitleSimilarity_def computeAuthorsSimilarity_def
        joined_authors_def computeDateSimilarity_def to_date_def
        findCorrespondingPublication_def candidate_confidence_def validMeasures_def
        measures_def isNaN_def)

subsection \<open>The exact identifiers\<close>

text \<open>
  Claim C3. The normalisation of the code strips a trailing version marker, the letter
  \<^verbatim>\<open>v\<close> followed by one or more digits at the end of the string, and leaves a string
  without such a marker as it is. If some candidate satisfies the exact-identifier rule of
  the specification (\<open>spec_exact_identifier_rule\<close>, stated with the normaliser
  \<open>spec_strip_version\<close> of the specification), the search returns the first such
  candidate of the sequence with confidence exactly 1, whatever the other fields are.
\<close>

theorem exact_identifier_first_wins:
  "(ds \<noteq> [] \<and> (\<forall>d\<in>set ds. spec_digit d) \<longrightarrow>
      strip_if_truthy (Some (p @ CHR ''v'' # ds)) = Some p) \<and>
   ((\<forall>q es. s = q @ CHR ''v'' # es \<longrightarrow> es = [] \<or> (\<exists>d\<in>set es. \<not> spec_digit d)) \<longrightarrow>
      strip_if_truthy (Some s) = Some s) \<and>
   (List.find (spec_exact_identifier_rule t) cs = Some c \<longrightarrow>
      findCorrespondingPublication newDate t cs = \<lparr>best = Some c, confidence = Num 1\<rparr>)"
proof (intro conjI impI)
  assume "ds \<noteq> [] \<and> (\<forall>d\<in>set ds. spec_digit d)"
  then show "strip_if_truthy (Some (p @ CHR ''v'' # ds)) = Some p"
    by (simp add: strip_if_truthy_def replace_version_marker)
next
  assume "\<forall>q es. s = q @ CHR ''v'' # es \<longrightarrow> es = [] \<or> (\<exists>d\<in>set es. \<not> spec_digit d)"
  then have "replace_version s = s" by (rule replace_version_no_marker)
  then show "strip_if_truthy (Some s) = Some s" by (simp add: strip_if_truthy_def)
next
  assume found: "List.find (spec_exact_identifier_rule t) cs = Some c"
  from find_Some_split [OF found] obtain pre post where
    cs: "cs = pre @ c # post" and c: "spec_exact_identifier_rule t c"
    and pre: "\<forall>p\<in>set pre. \<not> spec_exact_identifier_rule t p"
    by blast
  have "\<forall>p\<in>set pre. \<not> haveSameHalID t p \<and> \<not> haveSameDOI t p"
    using pre by (simp add: spec_exact_identifier_rule_code)
  moreover have "haveSameHalID t c \<or> haveSameDOI t c"
    using c by (simp add: spec_exact_identifier_rule_code)
  ultimately show "findCorrespondingPublication newDate t cs
      = \<lparr>best = Some c, confidence = Num 1\<rparr>"
    unfolding findCorrespondingPublication_def cs by (rule find_loop_first_exact)
qed

text \<open>
  Scenario 1 of the specification: the version marker of \<^verbatim>\<open>hal-000111v2\<close> is
  stripped, \<^verbatim>\<open>hal-000111\<close> is left as it is, and of the two candidates with that
  identifier the first is returned, its title unrelated to the target's.
\<close>

theorem exact_identifier_first_wins_witness:
  "strip_if_truthy (Some ''hal-000111v2'') = Some ''hal-000111'' \<and>
   strip_if_truthy (Some ''hal-000111'') = Some ''hal-000111'' \<and>
   List.find (spec_exact_identifier_rule scenario_versioned_target)
     [blank_candidate\<lparr>hal := Some ''hal-000222''\<rparr>,
      blank_candidate\<lparr>hal := Some ''hal-000111'', title := Some ''Slow Trees''\<rparr>,
      blank_candidate\<lparr>hal := Some ''hal-000111v3''\<rparr>]
   = Some (blank_candidate\<lparr>hal := Some ''hal-000111'', title := Some ''Slow Trees''\<rparr>) \<and>
   findCorrespondingPublication sampleNewDate scenario_versioned_target
     [blank_candidate\<lparr>hal := Some ''hal-000222''\<rparr>,
      blank_candidate\<lparr>hal := Some ''hal-000111'', title := Some ''Slow Trees''\<rparr>,
      blank_candidate\<lparr>hal := Some ''hal-000111v3''\<rparr>]
   = \<lparr>best = Some (blank_candidate\<lparr>hal := Some ''hal-000111'', title := Some ''Slow Trees''\<rparr>),
      confidence = Num 1\<rparr>"
proof -
  note inst = exact_identifier_first_wins [where ds = "''2''" and p = "''hal-000111''"
      and s = "''hal-000111''" and t = scenario_versioned_target
      and cs = "[blank_candidate\<lparr>hal := Some ''hal-000222''\<rparr>,
                 blank_candidate\<lparr>hal := Some ''hal-000111'', title := Some ''Slow Trees''\<rparr>,
                 blank_candidate\<lparr>hal := Some ''hal-000111v3''\<rparr>]"
      and c = "blank_candidate\<lparr>hal := Some ''hal-000111'', title := Some ''Slow Trees''\<rparr>"
      and newDate = sampleNewDate]
  have digits: "''2'' \<noteq> [] \<and> (\<forall>d\<in>set ''2''. spec_digit d)"
    by (simp add: spec_digit_def)
  have plain: "\<forall>q es. ''hal-000111'' = q @ CHR ''v'' # es \<longrightarrow>
                 es = [] \<or> (\<exists>d\<in>set es. \<not> spec_digit d)"
  proof (intro allI impI)
    fix q es assume "''hal-000111'' = q @ CHR ''v'' # es"
    then have "set ''hal-000111'' = set (q @ CHR ''v'' # es)" by (rule arg_cong)
    then have "CHR ''v'' \<in> set ''hal-000111''" by simp
    then show "es = [] \<or> (\<exists>d\<in>set es. \<not> spec_digit d)" by simp
  qed
  have found: "List.find (spec_exact_identifier_rule scenario_versioned_target)
     [blank_candidate\<lparr>hal := Some ''hal-000222''\<rparr>,
      blank_candidate\<lparr>hal := Some ''hal-000111'', title := Some ''Slow Trees''\<rparr>,
      blank_candidate\<lparr>hal := Some ''hal-000111v3''\<rparr>]
   = Some (blank_candidate\<lparr>hal := Some ''hal-000111'', title := Some ''Slow Trees''\<rparr>)"
    by (simp add: spec_exact_identifier_rule_def spec_strip_version_def spec_digit_def
          scenario_versioned_target_def blank_candidate_def)
  from inst digits plain found show ?thesis by simp
qed

text \<open>
  Claim C9. If the DOI of the target and the DOI of a candidate are both the empty string,
  \<^verbatim>\<open>haveSameDOI\<close> holds for them, and the search returns that candidate with
  confidence 1 (no earlier candidate firing a rule).
\<close>

theorem empty_doi_fires:
  assumes "doiId_s t = Some []" and "doi c = Some []"
    and "\<forall>p\<in>set pre. \<not> haveSameHalID t p \<and> \<not> haveSameDOI t p"
  shows "haveSameDOI t c \<and>
         findCorrespondingPublication newDate t (pre @ c # post)
           = \<lparr>best = Some c, confidence = Num 1\<rparr>"
proof -
  have "haveSameDOI t c" using assms(1,2) by (simp add: haveSameDOI_def)
  then show ?thesis
    using find_loop_first_exact [OF assms(3), of c newDate post None "Num 0"]
    by (simp add: findCorrespondingPublication_def)
qed

text \<open>
  The theorem at a candidate with an empty DOI between two candidates without any field.
\<close>

theorem empty_doi_fires_witness:
  "haveSameDOI (blank_target\<lparr>doiId_s := Some []\<rparr>) (blank_candidate\<lparr>doi := Some []\<rparr>) \<and>
   findCorrespondingPublication sampleNewDate (blank_target\<lparr>doiId_s := Some []\<rparr>)
     ([blank_candidate] @ blank_candidate\<lparr>doi := Some []\<rparr> # [blank_candidate])
     = \<lparr>best = Some (blank_candidate\<lparr>doi := Some []\<rparr>), confidence = Num 1\<rparr>"
  using empty_doi_fires [of "blank_target\<lparr>doiId_s := Some []\<rparr>" "blank_candidate\<lparr>doi := Some []\<rparr>"
          "[blank_candidate]" sampleNewDate "[blank_candidate]"]
  by (simp add: blank_target_def blank_candidate_def haveSameHalID_def haveSameDOI_def
        strip_if_truthy_def)

subsection \<open>The fused confidence\<close>

text \<open>
  Claim C4. The measures that enter the average are the computable ones among title,
  authors, date and authors again; the confidence of a candidate is their arithmetic mean
  (NaN when there is none), and it is the value the loop compares with the running best
  for a candidate that fires no exact-identifier rule. With title and authors similarity 1
  and dates five days apart the confidence is (1 + 1 + 1 + exp (-5/150)) / 4, which is
  0.992 to three decimal places.
\<close>

theorem fused_confidence_is_mean:
  "validMeasures newDate t c =
     filter (\<lambda>measure. \<not> isNaN measure)
       [computeTitleSimilarity t c, computeAuthorsSimilarity t c,
        computeDateSimilarity newDate t c, computeAuthorsSimilarity t c] \<and>
   candidate_confidence newDate t c =
     (if validMeasures newDate t c = [] then NaN
      else Num (sum_list (map num_value (validMeasures newDate t c)) /
                real (length (validMeasures newDate t c)))) \<and>
   (\<not> haveSameHalID t c \<and> \<not> haveSameDOI t c \<longrightarrow>
      find_loop newDate t (c # cs) b bc =
        (if js_gt (candidate_confidence newDate t c) bc
         then find_loop newDate t cs (Some c) (candidate_confidence newDate t c)
         else find_loop newDate t cs b bc)) \<and>
   (computeTitleSimilarity t c = Num 1 \<and> computeAuthorsSimilarity t c = Num 1 \<and>
    to_date newDate (publicationDate_s t) = Some (ValidDate a) \<and>
    to_date newDate (date c) = Some (ValidDate d) \<and>
    \<bar>d - a\<bar> = 5 * (1000 * 60 * 60 * 24) \<longrightarrow>
      candidate_confidence newDate t c = Num ((1 + 1 + 1 + exp (- 5 / 150)) / 4) \<and>
      \<bar>(1 + 1 + 1 + exp (- 5 / 150)) / 4 - 992 / 1000\<bar> < (5 / 10000 :: real))"
proof -
  have valid: "validMeasures newDate t c =
     filter (\<lambda>measure. \<not> isNaN measure)
       [computeTitleSimilarity t c, computeAuthorsSimilarity t c,
        computeDateSimilarity newDate t c, computeAuthorsSimilarity t c]"
    by (simp add: validMeasures_def measures_def Let_def)
  have approx: "\<bar>(1 + 1 + 1 + exp (- 5 / 150)) / 4 - 992 / 1000\<bar> < (5 / 10000 :: real)"
    using exp_five_days by simp
  have scenario: "candidate_confidence newDate t c = Num ((1 + 1 + 1 + exp (- 5 / 150)) / 4)"
    if "computeTitleSimilarity t c = Num 1" "computeAuthorsSimilarity t c = Num 1"
       "to_date newDate (publicationDate_s t) = Some (ValidDate a)"
       "to_date newDate (date c) = Some (ValidDate d)"
       "\<bar>d - a\<bar> = 5 * (1000 * 60 * 60 * 24)"
  proof -
    have "\<bar>real_of_int d - real_of_int a\<bar> = real_of_int \<bar>d - a\<bar>" by simp
    then have "\<bar>real_of_int d - real_of_int a\<bar> = 432000000" using that(5) by simp
    then have "computeDateSimilarity newDate t c = Num (exp (- 5 / 150))"
      using date_similarity_exact [OF that(3,4)] by simp
    then show ?thesis
      using that(1,2) by (simp add: candidate_confidence_eq valid isNaN_def)
  qed
  have step: "find_loop newDate t (c # cs) b bc =
        (if js_gt (candidate_confidence newDate t c) bc
         then find_loop newDate t cs (Some c) (candidate_confidence newDate t c)
         else find_loop newDate t cs b bc)"
    if "\<not> haveSameHalID t c \<and> \<not> haveSameDOI t c"
    using that by simp
  from valid candidate_confidence_eq [of newDate t c] step scenario approx
  show ?thesis by blast
qed

text \<open>
  Scenario 2 of the specification, with the date strings parsed by the sample parser.
\<close>

theorem fused_confidence_is_mean_witness:
  "\<not> haveSameHalID scenario_target scenario_candidate \<and>
   \<not> haveSameDOI scenario_target scenario_candidate \<and>
   validMeasures sampleNewDate scenario_target scenario_candidate
     = [Num 1, Num 1, Num (exp (- 5 / 150)), Num 1] \<and>
   candidate_confidence sampleNewDate scenario_target scenario_candidate
     = Num ((1 + 1 + 1 + exp (- 5 / 150)) / 4) \<and>
   findCorrespondingPublication sampleNewDate scenario_target [scenario_candidate]
     = \<lparr>best = Some scenario_candidate,
        confidence = Num ((1 + 1 + 1 + exp (- 5 / 150)) / 4)\<rparr>"
proof -
  note inst = fused_confidence_is_mean [of sampleNewDate scenario_target scenario_candidate
                "[]" None "Num 0" 1592179200000 1592611200000]
  have norule: "\<not> haveSameHalID scenario_target scenario_candidate \<and>
                \<not> haveSameDOI scenario_target scenario_candidate"
    by (simp add: scenario_target_def scenario_candidate_def haveSameHalID_def
          haveSameDOI_def strip_if_truthy_def)
  have title1: "computeTitleSimilarity scenario_target scenario_candidate = Num 1"
    by (simp add: scenario_target_def scenario_candidate_def computeTitleSimilarity_def
          stringSimilarity_same)
  have authors1: "computeAuthorsSimilarity scenario_target scenario_candidate = Num 1"
    by (simp add: scenario_target_def scenario_candidate_def computeAuthorsSimilarity_def
          joined_authors_def stringSimilarity_same)
  have dates: "to_date sampleNewDate (publicationDate_s scenario_target)
                 = Some (ValidDate 1592179200000)"
              "to_date sampleNewDate (date scenario_candidate)
                 = Some (ValidDate 1592611200000)"
    by (simp_all add: scenario_target_def scenario_candidate_def to_date_def sampleNewDate_def)
  have gap: "\<bar>1592611200000 - 1592179200000\<bar> = (5 * (1000 * 60 * 60 * 24) :: int)"
    by simp
  from inst title1 authors1 dates gap
  have conf: "candidate_confidence sampleNewDate scenario_target scenario_candidate
                = Num ((1 + 1 + 1 + exp (- 5 / 150)) / 4)"
    by blast
  have dsim: "computeDateSimilarity sampleNewDate scenario_target scenario_candidate
                = Num (exp (- 5 / 150))"
    using date_similarity_exact [OF dates] by simp
  from inst have "validMeasures sampleNewDate scenario_target scenario_candidate =
     filter (\<lambda>measure. \<not> isNaN measure)
       [computeTitleSimilarity scenario_target scenario_candidate,
        computeAuthorsSimilarity scenario_target scenario_candidate,
        computeDateSimilarity sampleNewDate scenario_target scenario_candidate,
        computeAuthorsSimilarity scenario_target scenario_candidate]"
    by blast
  then have valid: "validMeasures sampleNewDate scenario_target scenario_candidate
     = [Num 1, Num 1, Num (exp (- 5 / 150)), Num 1]"
    by (simp add: title1 authors1 dsim isNaN_def)
  have pos: "0 < (3 + exp (- (1 / 30) :: real)) / 4"
    by (simp add: add_pos_pos)
  have "findCorrespondingPublication sampleNewDate scenario_target [scenario_candidate]
     = \<lparr>best = Some scenario_candidate,
        confidence = Num ((1 + 1 + 1 + exp (- 5 / 150)) / 4)\<rparr>"
    using norule conf pos by (simp add: findCorrespondingPublication_def)
  then show ?thesis using norule valid conf by blast
qed

text \<open>
  Claim C5. The first candidate that fires an exact-identifier rule is returned at once,
  whatever follows it in the sequence; a candidate that fires none replaces the running
  best only when its confidence is strictly greater than the running confidence; hence a
  candidate of positive confidence, strictly above every earlier candidate (or those have
  none) and not exceeded by any later one, is the one returned: among candidates of equal
  confidence the earliest.
\<close>

theorem single_forward_pass:
  "((\<forall>p\<in>set pre. \<not> haveSameHalID t p \<and> \<not> haveSameDOI t p) \<and>
    (haveSameHalID t c \<or> haveSameDOI t c) \<longrightarrow>
      findCorrespondingPublication newDate t (pre @ c # post)
        = \<lparr>best = Some c, confidence = Num 1\<rparr>) \<and>
   (\<not> haveSameHalID t c \<and> \<not> haveSameDOI t c \<longrightarrow>
      find_loop newDate t (c # cs) b bc =
        (if js_gt (candidate_confidence newDate t c) bc
         then find_loop newDate t cs (Some c) (candidate_confidence newDate t c)
         else find_loop newDate t cs b bc)) \<and>
   ((\<forall>p\<in>set pre. \<not> haveSameHalID t p \<and> \<not> haveSameDOI t p \<and>
        (candidate_confidence newDate t p = NaN \<or>
         js_gt (candidate_confidence newDate t c) (candidate_confidence newDate t p))) \<and>
    \<not> haveSameHalID t c \<and> \<not> haveSameDOI t c \<and>
    js_gt (candidate_confidence newDate t c) (Num 0) \<and>
    (\<forall>q\<in>set post. \<not> haveSameHalID t q \<and> \<not> haveSameDOI t q \<and>
        \<not> js_gt (candidate_confidence newDate t q) (candidate_confidence newDate t c)) \<longrightarrow>
      findCorrespondingPublication newDate t (pre @ c # post)
        = \<lparr>best = Some c, confidence = candidate_confidence newDate t c\<rparr>)"
proof (intro conjI impI)
  assume "(\<forall>p\<in>set pre. \<not> haveSameHalID t p \<and> \<not> haveSameDOI t p) \<and>
          (haveSameHalID t c \<or> haveSameDOI t c)"
  then show "findCorrespondingPublication newDate t (pre @ c # post)
        = \<lparr>best = Some c, confidence = Num 1\<rparr>"
    unfolding findCorrespondingPublication_def
    using find_loop_first_exact [of pre t c newDate post None "Num 0"] by blast
next
  assume "\<not> haveSameHalID t c \<and> \<not> haveSameDOI t c"
  then show "find_loop newDate t (c # cs) b bc =
        (if js_gt (candidate_confidence newDate t c) bc
         then find_loop newDate t cs (Some c) (candidate_confidence newDate t c)
         else find_loop newDate t cs b bc)"
    by simp
next
  assume "(\<forall>p\<in>set pre. \<not> haveSameHalID t p \<and> \<not> haveSameDOI t p \<and>
        (candidate_confidence newDate t p = NaN \<or>
         js_gt (candidate_confidence newDate t c) (candidate_confidence newDate t p))) \<and>
    \<not> haveSameHalID t c \<and> \<not> haveSameDOI t c \<and>
    js_gt (candidate_confidence newDate t c) (Num 0) \<and>
    (\<forall>q\<in>set post. \<not> haveSameHalID t q \<and> \<not> haveSameDOI t q \<and>
        \<not> js_gt (candidate_confidence newDate t q) (candidate_confidence newDate t c))"
  then show "findCorrespondingPublication newDate t (pre @ c # post)
        = \<lparr>best = Some c, confidence = candidate_confidence newDate t c\<rparr>"
    unfolding findCorrespondingPublication_def
    using find_loop_earliest_maximal [of pre t newDate c post] by blast
qed

text \<open>
  Two distinct candidates of equal confidence 3/4: the earlier one is returned. With a
  candidate that has the target's DOI in third place, that one is returned, the
  candidates after it playing no part.
\<close>

theorem single_forward_pass_witness:
  "tie_first \<noteq> tie_second \<and>
   candidate_confidence sampleNewDate tie_target tie_first
     = candidate_confidence sampleNewDate tie_target tie_second \<and>
   findCorrespondingPublication sampleNewDate tie_target
     ([blank_candidate] @ tie_first # [tie_second, blank_candidate])
     = \<lparr>best = Some tie_first, confidence = Num (3 / 4)\<rparr> \<and>
   findCorrespondingPublication sampleNewDate tie_target
     ([blank_candidate, tie_first] @ tie_exact # [tie_second, tie_exact])
     = \<lparr>best = Some tie_exact, confidence = Num 1\<rparr>"
  using single_forward_pass [where pre = "[blank_candidate]" and t = tie_target
          and c = tie_first and post = "[tie_second, blank_candidate]"
          and newDate = sampleNewDate and cs = "[]" and b = None and bc = "Num 0"]
        single_forward_pass [where pre = "[blank_candidate, tie_first]" and t = tie_target
          and c = tie_exact and post = "[tie_second, tie_exact]"
          and newDate = sampleNewDate and cs = "[]" and b = None and bc = "Num 0"]
  by (simp add: tie_confidences tie_rules) (simp add: tie_first_def tie_second_def blank_candidate_def)

subsection \<open>The string similarity\<close>

text \<open>
  Claim C6. For two non-empty strings, the inputs of the primitive's contract, the string
  similarity is 1 - levenshtein / (the greater length); it is the same for both orders of
  the arguments, exactly 1 when the two strings are equal, and a number in [0,1].
\<close>

theorem stringSimilarity_properties:
  assumes "a \<noteq> []" and "b \<noteq> []"
  shows "stringSimilarity a b =
           Num (1 - real (levenshtein a b) / real (max (length a) (length b))) \<and>
         stringSimilarity a b = stringSimilarity b a \<and>
         (a = b \<longrightarrow> stringSimilarity a b = Num 1) \<and>
         unit_value (stringSimilarity a b)"
  using assms stringSimilarity_eq [of a b] stringSimilarity_sym [of a b]
        stringSimilarity_same [of a] stringSimilarity_unit [of a b]
  by blast

text \<open>The theorem at two short words, one insertion apart, and at twice the same word.\<close>

theorem stringSimilarity_properties_witness:
  "stringSimilarity ''cat'' ''cart'' = Num (3 / 4) \<and>
   stringSimilarity ''cat'' ''cart'' = stringSimilarity ''cart'' ''cat'' \<and>
   unit_value (stringSimilarity ''cat'' ''cart'') \<and>
   stringSimilarity ''cat'' ''cat'' = Num 1"
  using stringSimilarity_properties [of "''cat''" "''cart''"]
        stringSimilarity_properties [of "''cat''" "''cat''"]
  by (simp add: stringSimilarity_def js_sub_def)

subsection \<open>The date similarity\<close>

text \<open>
  Claim C7, as amended. When both dates are present and valid, as \<^verbatim>\<open>Date\<close> objects
  or as strings the parser accepts, the date similarity is
  \<^verbatim>\<open>Math.exp\<close> of -|difference in days| / 150, the difference in days being the
  difference of the time values divided by 86400000; up to 100000 days this is the real
  exponential. It is the same when the two dates change sides, it is exactly 1 for equal
  dates, and a greater absolute difference never gives a greater similarity. It is
  strictly decreasing in the absolute difference as long as the greater difference is at
  most 100000 days (about 273 years).
\<close>

theorem date_similarity_properties:
  assumes "to_date newDate (publicationDate_s t) = Some (ValidDate a)"
    and "to_date newDate (date c) = Some (ValidDate b)"
    and "to_date newDate (publicationDate_s t') = Some (ValidDate a')"
    and "to_date newDate (date c') = Some (ValidDate b')"
  shows "computeDateSimilarity newDate t c =
           js_exp (Num (- (\<bar>real_of_int b - real_of_int a\<bar> / (1000 * 60 * 60 * 24)) / 150)) \<and>
         (\<bar>b - a\<bar> \<le> 100000 * (1000 * 60 * 60 * 24) \<longrightarrow>
            computeDateSimilarity newDate t c =
              Num (exp (- (\<bar>real_of_int b - real_of_int a\<bar> / (1000 * 60 * 60 * 24)) / 150))) \<and>
         (a' = b \<and> b' = a \<longrightarrow>
            computeDateSimilarity newDate t' c' = computeDateSimilarity newDate t c) \<and>
         (a = b \<longrightarrow> computeDateSimilarity newDate t c = Num 1) \<and>
         (\<bar>b - a\<bar> \<le> \<bar>b' - a'\<bar> \<longrightarrow>
            \<not> js_gt (computeDateSimilarity newDate t' c') (computeDateSimilarity newDate t c)) \<and>
         (\<bar>b - a\<bar> < \<bar>b' - a'\<bar> \<and> \<bar>b' - a'\<bar> \<le> 100000 * (1000 * 60 * 60 * 24) \<longrightarrow>
            js_gt (computeDateSimilarity newDate t c) (computeDateSimilarity newDate t' c'))"
proof -
  define g where "g = \<bar>real_of_int b - real_of_int a\<bar>"
  define g' where "g' = \<bar>real_of_int b' - real_of_int a'\<bar>"
  have g: "g = real_of_int \<bar>b - a\<bar>" and g': "g' = real_of_int \<bar>b' - a'\<bar>"
    by (simp_all add: g_def g'_def)
  have sim: "computeDateSimilarity newDate t c = js_exp (Num (- (g / (1000 * 60 * 60 * 24)) / 150))"
    unfolding g_def by (rule date_similarity_valid [OF assms(1,2)])
  have sim': "computeDateSimilarity newDate t' c' =
                js_exp (Num (- (g' / (1000 * 60 * 60 * 24)) / 150))"
    unfolding g'_def by (rule date_similarity_valid [OF assms(3,4)])
  have nonpos: "- (g / (1000 * 60 * 60 * 24)) / 150 \<le> 0" "- (g' / (1000 * 60 * 60 * 24)) / 150 \<le> 0"
    by (simp_all add: g_def g'_def)
  have near: "- 667 \<le> - (x / (1000 * 60 * 60 * 24)) / 150"
    if "x \<le> 100000 * (1000 * 60 * 60 * 24)" for x :: real
    using that by simp
  have exact: "computeDateSimilarity newDate t c = Num (exp (- (g / (1000 * 60 * 60 * 24)) / 150))"
    if "\<bar>b - a\<bar> \<le> 100000 * (1000 * 60 * 60 * 24)"
  proof -
    have "g \<le> 100000 * (1000 * 60 * 60 * 24)" using that unfolding g by linarith
    then show ?thesis using sim js_exp_exact [OF near nonpos(1)] by simp
  qed
  have swap: "computeDateSimilarity newDate t' c' = computeDateSimilarity newDate t c"
    if "a' = b \<and> b' = a"
    using that sim sim' by (simp add: g_def g'_def abs_minus_commute)
  have same: "computeDateSimilarity newDate t c = Num 1" if "a = b"
  proof -
    have "g = 0" using that by (simp add: g_def)
    then show ?thesis using sim js_exp_exact [of 0] by simp
  qed
  have mono: "\<not> js_gt (computeDateSimilarity newDate t' c') (computeDateSimilarity newDate t c)"
    if "\<bar>b - a\<bar> \<le> \<bar>b' - a'\<bar>"
  proof -
    have "g \<le> g'" using that unfolding g g' by linarith
    then have "- (g' / (1000 * 60 * 60 * 24)) / 150 \<le> - (g / (1000 * 60 * 60 * 24)) / 150"
      by simp
    from js_exp_mono [OF this nonpos(1)] show ?thesis by (simp add: sim sim')
  qed
  have strict: "js_gt (computeDateSimilarity newDate t c) (computeDateSimilarity newDate t' c')"
    if "\<bar>b - a\<bar> < \<bar>b' - a'\<bar> \<and> \<bar>b' - a'\<bar> \<le> 100000 * (1000 * 60 * 60 * 24)"
  proof -
    have lt: "g < g'" using that unfolding g g' by linarith
    have le': "g' \<le> 100000 * (1000 * 60 * 60 * 24)" using that unfolding g' by linarith
    then have le: "g \<le> 100000 * (1000 * 60 * 60 * 24)" using lt by linarith
    have "js_exp (Num (- (g / (1000 * 60 * 60 * 24)) / 150))
            = Num (exp (- (g / (1000 * 60 * 60 * 24)) / 150))"
      by (rule js_exp_exact [OF near [OF le] nonpos(1)])
    moreover have "js_exp (Num (- (g' / (1000 * 60 * 60 * 24)) / 150))
            = Num (exp (- (g' / (1000 * 60 * 60 * 24)) / 150))"
      by (rule js_exp_exact [OF near [OF le'] nonpos(2)])
    ultimately show ?thesis using lt by (simp add: sim sim')
  qed
  from sim exact swap same mono strict show ?thesis unfolding g_def by blast
qed

text \<open>
  The theorem at 15 and 20 June 2020, in both orders, and at twice the same day.
\<close>

theorem date_similarity_properties_witness:
  "computeDateSimilarity sampleNewDate
     (blank_target\<lparr>publicationDate_s := Some (DateString ''2020-06-15'')\<rparr>)
     (blank_candidate\<lparr>date := Some (DateObject (ValidDate 1592611200000))\<rparr>)
     = Num (exp (- (1 / 30))) \<and>
   computeDateSimilarity sampleNewDate
     (blank_target\<lparr>publicationDate_s := Some (DateString ''2020-06-20'')\<rparr>)
     (blank_candidate\<lparr>date := Some (DateString ''2020-06-15'')\<rparr>)
     = Num (exp (- (1 / 30))) \<and>
   computeDateSimilarity sampleNewDate
     (blank_target\<lparr>publicationDate_s := Some (DateString ''2020-06-20'')\<rparr>)
     (blank_candidate\<lparr>date := Some (DateString ''2020-06-20'')\<rparr>)
     = Num 1 \<and>
   js_gt
     (computeDateSimilarity sampleNewDate
       (blank_target\<lparr>publicationDate_s := Some (DateString ''2020-06-20'')\<rparr>)
       (blank_candidate\<lparr>date := Some (DateString ''2020-06-20'')\<rparr>))
     (computeDateSimilarity sampleNewDate
       (blank_target\<lparr>publicationDate_s := Some (DateString ''2020-06-20'')\<rparr>)
       (blank_candidate\<lparr>date := Some (DateString ''2020-06-15'')\<rparr>))"
  using date_similarity_properties [of sampleNewDate
          "blank_target\<lparr>publicationDate_s := Some (DateString ''2020-06-15'')\<rparr>" 1592179200000
          "blank_candidate\<lparr>date := Some (DateObject (ValidDate 1592611200000))\<rparr>" 1592611200000
          "blank_target\<lparr>publicationDate_s := Some (DateString ''2020-06-20'')\<rparr>" 1592611200000
          "blank_candidate\<lparr>date := Some (DateString ''2020-06-15'')\<rparr>" 1592179200000]
        date_similarity_properties [of sampleNewDate
          "blank_target\<lparr>publicationDate_s := Some (DateString ''2020-06-20'')\<rparr>" 1592611200000
          "blank_candidate\<lparr>date := Some (DateString ''2020-06-20'')\<rparr>" 1592611200000
          "blank_target\<lparr>publicationDate_s := Some (DateString ''2020-06-20'')\<rparr>" 1592611200000
          "blank_candidate\<lparr>date := Some (DateString ''2020-06-15'')\<rparr>" 1592179200000]
  by (simp add: blank_target_def blank_candidate_def to_date_def sampleNewDate_def
        js_exp_exact)

text \<open>
  Claim C7 as it was stated fails, where \<^verbatim>\<open>Math.exp\<close> underflows: against a target of
  15 June 2020, a candidate of 1 January 1400 is 226616 days away and one of
  1 January 1200 is 299665 days away; the similarity is 0 for both, so it is not
  strictly smaller for the greater difference.
\<close>

theorem date_similarity_underflow_counterexample:
  "\<bar>- 17987443200000 - 1592179200000\<bar> < \<bar>- 24298876800000 - (1592179200000 :: int)\<bar> \<and>
   computeDateSimilarity sampleNewDate
     (blank_target\<lparr>publicationDate_s := Some (DateString ''2020-06-15'')\<rparr>)
     (blank_candidate\<lparr>date := Some (DateObject (ValidDate (- 17987443200000)))\<rparr>) = Num 0 \<and>
   computeDateSimilarity sampleNewDate
     (blank_target\<lparr>publicationDate_s := Some (DateString ''2020-06-15'')\<rparr>)
     (blank_candidate\<lparr>date := Some (DateObject (ValidDate (- 24298876800000)))\<rparr>) = Num 0 \<and>
   \<not> js_gt
     (computeDateSimilarity sampleNewDate
       (blank_target\<lparr>publicationDate_s := Some (DateString ''2020-06-15'')\<rparr>)
       (blank_candidate\<lparr>date := Some (DateObject (ValidDate (- 17987443200000)))\<rparr>))
     (computeDateSimilarity sampleNewDate
       (blank_target\<lparr>publicationDate_s := Some (DateString ''2020-06-15'')\<rparr>)
       (blank_candidate\<lparr>date := Some (DateObject (ValidDate (- 24298876800000)))\<rparr>))"
proof -
  have "computeDateSimilarity sampleNewDate
     (blank_target\<lparr>publicationDate_s := Some (DateString ''2020-06-15'')\<rparr>)
     (blank_candidate\<lparr>date := Some (DateObject (ValidDate d))\<rparr>) = Num 0"
    if "\<bar>real_of_int d - 1592179200000\<bar> / (1000 * 60 * 60 * 24) / 150 \<ge> 1075" for d
  proof -
    have "computeDateSimilarity sampleNewDate
       (blank_target\<lparr>publicationDate_s := Some (DateString ''2020-06-15'')\<rparr>)
       (blank_candidate\<lparr>date := Some (DateObject (ValidDate d))\<rparr>)
       = js_exp (Num (- (\<bar>real_of_int d - real_of_int 1592179200000\<bar> / (1000 * 60 * 60 * 24)) / 150))"
      by (rule date_similarity_valid)
         (simp_all add: blank_target_def blank_candidate_def to_date_def sampleNewDate_def)
    also have "\<dots> = Num 0"
      using that by (intro js_exp_zero) simp
    finally show ?thesis .
  qed
  from this [of "- 17987443200000"] this [of "- 24298876800000"]
  show ?thesis by simp
qed

text \<open>
  Claim C8. When the date of the target or of the candidate is a string that the parser
  turns into an Invalid Date, the date similarity is NaN, a value and not an exception: the
  functions of the source have no \<^verbatim>\<open>throw\<close>, and the model is total. The NaN does
  not pass the filter, and the confidence is the mean of the computable ones among title,
  authors and authors again.
\<close>

theorem unparseable_date_excluded:
  assumes "(publicationDate_s t = Some (DateString s) \<or> date c = Some (DateString s)) \<and>
           newDate s = InvalidDate"
  shows "computeDateSimilarity newDate t c = NaN \<and>
         validMeasures newDate t c =
           filter (\<lambda>measure. \<not> isNaN measure)
             [computeTitleSimilarity t c, computeAuthorsSimilarity t c,
              computeAuthorsSimilarity t c] \<and>
         candidate_confidence newDate t c =
           (if validMeasures newDate t c = [] then NaN
            else Num (sum_list (map num_value (validMeasures newDate t c)) /
                      real (length (validMeasures newDate t c))))"
proof -
  have s: "to_date newDate (Some (DateString s)) = Some InvalidDate \<or>
           to_date newDate (Some (DateString s)) = None"
    using assms by (simp add: to_date_def)
  have "publicationDate_s t = Some (DateString s) \<or> date c = Some (DateString s)"
    using assms by blast
  then have "to_date newDate (publicationDate_s t) = Some InvalidDate \<or>
        to_date newDate (date c) = Some InvalidDate \<or>
        to_date newDate (publicationDate_s t) = None \<or>
        to_date newDate (date c) = None"
    using s by metis
  then have nan: "computeDateSimilarity newDate t c = NaN"
    by (rule date_similarity_invalid)
  then show ?thesis
    by (simp add: validMeasures_def measures_def isNaN_def candidate_confidence_eq Let_def)
qed

text \<open>
  The theorem at a target whose date the sample parser rejects: the confidence is the
  title similarity alone.
\<close>

theorem unparseable_date_excluded_witness:
  "computeDateSimilarity sampleNewDate
     (blank_target\<lparr>title_s := Some (TitleString ''cat''),
                    publicationDate_s := Some (DateString ''15/06/2020'')\<rparr>)
     (blank_candidate\<lparr>title := Some ''cart'', date := Some (DateString ''2020-06-15'')\<rparr>)
     = NaN \<and>
   validMeasures sampleNewDate
     (blank_target\<lparr>title_s := Some (TitleString ''cat''),
                    publicationDate_s := Some (DateString ''15/06/2020'')\<rparr>)
     (blank_candidate\<lparr>title := Some ''cart'', date := Some (DateString ''2020-06-15'')\<rparr>)
     = [Num (3 / 4)] \<and>
   candidate_confidence sampleNewDate
     (blank_target\<lparr>title_s := Some (TitleString ''cat''),
                    publicationDate_s := Some (DateString ''15/06/2020'')\<rparr>)
     (blank_candidate\<lparr>title := Some ''cart'', date := Some (DateString ''2020-06-15'')\<rparr>)
     = Num (3 / 4)"
  using unparseable_date_excluded [of
     "blank_target\<lparr>title_s := Some (TitleString ''cat''),
                    publicationDate_s := Some (DateString ''15/06/2020'')\<rparr>"
     "''15/06/2020''"
     "blank_candidate\<lparr>title := Some ''cart'', date := Some (DateString ''2020-06-15'')\<rparr>"
     sampleNewDate]
  by (simp add: blank_target_def blank_candidate_def sampleNewDate_def
        computeTitleSimilarity_def computeAuthorsSimilarity_def joined_authors_def
        stringSimilarity_def js_sub_def isNaN_def Let_def)

subsection \<open>An empty array of titles\<close>

text \<open>
  Claim C10. When the target's titles are an empty array and the candidate has a
  non-empty title, the title similarity is 0, the initial value of the maximum, and not
  NaN as for an absent title. This 0 is the first of the valid measures, so the sum of the
  others is divided by one more than their count: where the confidence with the title
  absent is a number, the confidence is at most that number, and strictly smaller if that
  number is positive.
\<close>

theorem empty_title_array_counts_zero:
  assumes "title_s t = Some (TitleArray [])" and "title c = Some s" and "s \<noteq> []"
  shows "computeTitleSimilarity t c = Num 0 \<and>
         computeTitleSimilarity (t\<lparr>title_s := None\<rparr>) c = NaN \<and>
         validMeasures newDate t c = Num 0 # validMeasures newDate (t\<lparr>title_s := None\<rparr>) c \<and>
         candidate_confidence newDate t c =
           Num (sum_list (map num_value (validMeasures newDate (t\<lparr>title_s := None\<rparr>) c)) /
                (1 + real (length (validMeasures newDate (t\<lparr>title_s := None\<rparr>) c)))) \<and>
         (\<forall>m. candidate_confidence newDate (t\<lparr>title_s := None\<rparr>) c = Num m \<longrightarrow>
            (\<exists>m'. candidate_confidence newDate t c = Num m' \<and> m' \<le> m \<and> (0 < m \<longrightarrow> m' < m)))"
proof -
  let ?t = "t\<lparr>title_s := None\<rparr>"
  let ?rest = "validMeasures newDate ?t c"
  let ?S = "sum_list (map num_value ?rest)"
  have title0: "computeTitleSimilarity t c = Num 0"
    using assms by (simp add: computeTitleSimilarity_def)
  have titleN: "computeTitleSimilarity ?t c = NaN"
    by (simp add: computeTitleSimilarity_def)
  have same: "computeAuthorsSimilarity ?t c = computeAuthorsSimilarity t c"
             "computeDateSimilarity newDate ?t c = computeDateSimilarity newDate t c"
    by (simp_all add: computeAuthorsSimilarity_def computeDateSimilarity_def)
  have valid: "validMeasures newDate t c = Num 0 # ?rest"
    by (simp add: validMeasures_def measures_def Let_def isNaN_def title0 titleN same)
  have conf: "candidate_confidence newDate t c = Num (?S / (1 + real (length ?rest)))"
    by (simp add: candidate_confidence_eq [of newDate t c] valid)
  have S0: "0 \<le> ?S"
    using sum_unit_bounds [OF valid_measures_unit, of newDate ?t c] by simp
  have lower: "?S / (1 + real (length ?rest)) \<le> m \<and> (0 < m \<longrightarrow> ?S / (1 + real (length ?rest)) < m)"
    if m: "candidate_confidence newDate ?t c = Num m" for m
  proof -
    have ne: "?rest \<noteq> []" and m_eq: "m = ?S / real (length ?rest)"
      using m by (auto simp: candidate_confidence_eq [of newDate ?t c] split: if_splits)
    have n: "0 < real (length ?rest)" using ne by simp
    have le: "?S / (1 + real (length ?rest)) \<le> ?S / real (length ?rest)"
      using S0 n by (intro divide_left_mono) (auto intro: mult_pos_pos)
    have lt: "?S / (1 + real (length ?rest)) < ?S / real (length ?rest)" if "0 < ?S"
      using that n by (intro divide_strict_left_mono) (auto intro: mult_pos_pos)
    have "0 < ?S" if "0 < m"
      using that n S0 unfolding m_eq by (simp add: zero_less_divide_iff)
    then show ?thesis using le lt m_eq by auto
  qed
  show ?thesis using title0 titleN valid conf lower by simp
qed

text \<open>
  The theorem at authors of similarity 3/4: the confidence is (0 + 3/4 + 3/4) / 3 = 1/2,
  instead of (3/4 + 3/4) / 2 = 3/4 with the title absent.
\<close>

theorem empty_title_array_counts_zero_witness:
  "computeTitleSimilarity
     (blank_target\<lparr>title_s := Some (TitleArray []), authors_t := Some [''cat'']\<rparr>)
     (blank_candidate\<lparr>title := Some ''cat'', authors := Some [''cart'']\<rparr>) = Num 0 \<and>
   candidate_confidence sampleNewDate
     (blank_target\<lparr>title_s := Some (TitleArray []), authors_t := Some [''cat'']\<rparr>)
     (blank_candidate\<lparr>title := Some ''cat'', authors := Some [''cart'']\<rparr>) = Num (1 / 2) \<and>
   candidate_confidence sampleNewDate
     (blank_target\<lparr>title_s := None, authors_t := Some [''cat'']\<rparr>)
     (blank_candidate\<lparr>title := Some ''cat'', authors := Some [''cart'']\<rparr>) = Num (3 / 4)"
  using empty_title_array_counts_zero [of
     "blank_target\<lparr>title_s := Some (TitleArray []), authors_t := Some [''cat'']\<rparr>"
     "blank_candidate\<lparr>title := Some ''cat'', authors := Some [''cart'']\<rparr>" "''cat''"
     sampleNewDate]
  by (simp add: blank_target_def blank_candidate_def candidate_confidence_def validMeasures_def
        measures_def isNaN_def Let_def computeTitleSimilarity_def computeAuthorsSimilarity_def
        joined_authors_def computeDateSimilarity_def to_date_def stringSimilarity_def js_sub_def)

end
